theory Spec2Isabelle
  imports Main "HOL-Library.Sublist"
begin

section \<open>Data model of \<^verbatim>\<open>src/middleware/upload.ts\<close>\<close>

text \<open>
  The middleware reads three fields of a multer file object (\<^verbatim>\<open>mimetype\<close>,
  \<^verbatim>\<open>size\<close>, \<^verbatim>\<open>path\<close>); the field name is kept because it keys the
  grouped shape of \<^verbatim>\<open>req.files\<close>. The field \<^verbatim>\<open>size\<close> is called
  \<open>size_bytes\<close> here, as \<open>size\<close> is a constant of HOL.
\<close>

type_synonym path = string

record File =
  fieldname :: string
  mimetype :: string
  size_bytes :: nat
  path :: path

text \<open>
  \<^verbatim>\<open>req.files\<close> is, by its declared type, either an array of files or an object
  that maps a field name to an array of files. The object is kept as an association
  list in the order in which \<^verbatim>\<open>Object.keys\<close> enumerates it.
\<close>

datatype files_field =
    Files_Array "File list"
  | Files_Groups "(string \<times> File list) list"

text \<open>
  The part of the Express request that the middleware looks at: \<^verbatim>\<open>req.file\<close> and
  \<^verbatim>\<open>req.files\<close>, each of which may be undefined. (\<^verbatim>\<open>file\<close> is a keyword of
  Isabelle, so the fields carry the prefix \<open>req_\<close>.)
\<close>

record Request =
  req_file :: "File option"
  req_files :: "files_field option"

record ErrorResponse =
  success :: bool
  status :: nat
  code :: string
  message :: string

text \<open>A \<^verbatim>\<open>MulterError\<close>: the fields \<^verbatim>\<open>err.code\<close> and \<^verbatim>\<open>err.message\<close>.\<close>

record MulterError =
  err_code :: string
  err_message :: string

text \<open>
  The error values that travel through \<^verbatim>\<open>next(err)\<close>: an instance of
  \<^verbatim>\<open>MulterError\<close>, one of the plain \<^verbatim>\<open>ErrorResponse\<close> objects, or anything else
  (the type of \<^verbatim>\<open>err\<close> is \<^verbatim>\<open>unknown\<close>). Express hands only truthy values
  to an error handler.
\<close>

datatype 'e err =
    Multer MulterError
  | Response ErrorResponse
  | Other 'e

text \<open>
  What a handler did with its \<^verbatim>\<open>next\<close> callback: never called it, called
  \<^verbatim>\<open>next()\<close>, or called \<^verbatim>\<open>next(e)\<close>.
\<close>

datatype 'e next_call =
    Not_Called
  | Next
  | Next_Error "'e err"

section \<open>The validators\<close>

definition noFile :: ErrorResponse where
  "noFile = \<lparr>success = False, status = 400, code = ''NO_FILES'',
     message = ''No files found in the request''\<rparr>"

definition tooFewFiles :: ErrorResponse where
  "tooFewFiles = \<lparr>success = False, status = 400, code = ''TOO_FEW_FILES'',
     message = ''Too few files uploaded''\<rparr>"

definition badFile :: ErrorResponse where
  "badFile = \<lparr>success = False, status = 400, code = ''UNSUPPORTED_FILE'',
     message = ''Unsupported file type''\<rparr>"

definition emptyFile :: ErrorResponse where
  "emptyFile = \<lparr>success = False, status = 400, code = ''EMPTY_FILE'',
     message = ''Empty file uploaded''\<rparr>"

text \<open>
  The second handler of \<^verbatim>\<open>uploadSingleFileMiddleware(field)\<close> (lines 57 to 71); the
  first one is multer's \<^verbatim>\<open>.single(field)\<close>, which fills \<^verbatim>\<open>req.file\<close>.
\<close>

definition uploadSingleFileMiddleware :: "Request \<Rightarrow> 'e next_call" where
  "uploadSingleFileMiddleware req =
     (case req_file req of
        None \<Rightarrow> Next_Error (Response noFile)
      | Some f \<Rightarrow>
          if \<not> prefix ''image/'' (mimetype f) then Next_Error (Response badFile)
          else if size_bytes f = 0 then Next_Error (Response emptyFile)
          else Next)"

text \<open>The \<^verbatim>\<open>for ... of req.files\<close> loop of lines 88 to 96, with its early returns.\<close>

fun for_of_files :: "File list \<Rightarrow> 'e next_call" where
  "for_of_files [] = Next"
| "for_of_files (f # fs) =
     (if \<not> prefix ''image/'' (mimetype f) then Next_Error (Response badFile)
      else if size_bytes f = 0 then Next_Error (Response emptyFile)
      else for_of_files fs)"

text \<open>
  The second handler of \<^verbatim>\<open>uploadMultipleFilesMiddleware(field, minFiles, maxFiles)\<close>
  (lines 79 to 99). \<^verbatim>\<open>maxFiles\<close> only configures multer's \<^verbatim>\<open>.array(field)\<close> and
  is not read by this handler.
\<close>

definition uploadMultipleFilesMiddleware :: "int \<Rightarrow> Request \<Rightarrow> 'e next_call" where
  "uploadMultipleFilesMiddleware minFiles req =
     (case req_files req of
        Some (Files_Array fs) \<Rightarrow>
          if length fs = 0 then Next_Error (Response noFile)
          else if int (length fs) < minFiles then Next_Error (Response tooFewFiles)
          else for_of_files fs
      | _ \<Rightarrow> Next_Error (Response noFile))"

section \<open>Cleanup of the staged files\<close>

text \<open>
  The settled state of a \<^verbatim>\<open>Promise<void>\<close>: resolved, or rejected with a reason.
\<close>

datatype 'x promise =
    Resolved
  | Rejected 'x

text \<open>
  \<^verbatim>\<open>unlink\<close> is imported from \<^verbatim>\<open>../utils\<close>. The functions of this file take
  it as a parameter: a removal is asked for a path, changes the state of the file
  system \<open>'fs\<close>, and its promise settles.
\<close>

type_synonym ('fs, 'x) unlink_fn = "path \<Rightarrow> 'fs \<Rightarrow> 'x promise \<times> 'fs"

text \<open>
  \<^verbatim>\<open>files.map((file) => unlink(file.path))\<close> and the nested \<^verbatim>\<open>forEach\<close> with
  \<^verbatim>\<open>promises.push(unlink(file.path))\<close>: every removal is started, in the order of
  the array, whatever the others do. The removals then run concurrently; the model
  lets them take effect in the order in which they were started.
\<close>

fun start_all :: "('fs, 'x) unlink_fn \<Rightarrow> path list \<Rightarrow> 'fs \<Rightarrow> 'x promise list \<times> 'fs" where
  "start_all u [] d = ([], d)"
| "start_all u (p # ps) d =
     (case u p d of (r, d1) \<Rightarrow>
        (case start_all u ps d1 of (rs, d2) \<Rightarrow> (r # rs, d2)))"

text \<open>
  \<^verbatim>\<open>Promise.all\<close> over promises of no value: resolved when all are, rejected with the
  reason of a rejected one otherwise (here the first in the order of the array).
\<close>

fun promise_all :: "'x promise list \<Rightarrow> 'x promise" where
  "promise_all [] = Resolved"
| "promise_all (Resolved # rs) = promise_all rs"
| "promise_all (Rejected x # rs) = Rejected x"

text \<open>\<^verbatim>\<open>cleanupFiles(req)\<close>, lines 103 to 122.\<close>

definition cleanupFiles :: "('fs, 'x) unlink_fn \<Rightarrow> Request \<Rightarrow> 'fs \<Rightarrow> 'x promise \<times> 'fs" where
  "cleanupFiles u req d =
     (case req_file req of
        Some f \<Rightarrow> u (path f) d
      | None \<Rightarrow>
          (case req_files req of
             None \<Rightarrow> (Resolved, d)
           | Some fl \<Rightarrow>
               (case start_all u
                       (case fl of
                          Files_Array fs \<Rightarrow> map path fs
                        | Files_Groups g \<Rightarrow> concat (map (\<lambda>(key, fs). map path fs) g)) d of
                  (promises, d') \<Rightarrow>
                    if length promises \<noteq> 0 then (promise_all promises, d')
                    else (Resolved, d'))))"

text \<open>
  What a handler has done once everything it started has settled: its use of
  \<^verbatim>\<open>next\<close>, and the state of the promise it leaves behind. A rejected promise of a
  handler is not seen by Express 4; it is an unhandled rejection of the process.
\<close>

record ('e, 'x) outcome =
  called :: "'e next_call"
  settled :: "'x promise"

text \<open>
  \<^verbatim>\<open>cleanUploadedFilesMiddleware\<close>, lines 124 to 126:
  \<^verbatim>\<open>cleanupFiles(req).finally(next)\<close>. The callback of \<^verbatim>\<open>finally\<close> gets no argument,
  so \<^verbatim>\<open>next()\<close> is called either way, and the promise that \<^verbatim>\<open>finally\<close> returns
  settles as the one of \<^verbatim>\<open>cleanupFiles\<close> did.
\<close>

definition cleanUploadedFilesMiddleware ::
    "('fs, 'x) unlink_fn \<Rightarrow> Request \<Rightarrow> 'fs \<Rightarrow> ('e, 'x) outcome \<times> 'fs" where
  "cleanUploadedFilesMiddleware u req d =
     (case cleanupFiles u req d of
        (r, d') \<Rightarrow> (\<lparr>called = Next, settled = r\<rparr>, d'))"

text \<open>
  \<^verbatim>\<open>uploadErrorHandlerMiddleware\<close>, lines 128 to 163. When the awaited
  \<^verbatim>\<open>cleanupFiles(req)\<close> rejects, the async function rejects with the same reason and
  \<^verbatim>\<open>next\<close> is never called.
\<close>

definition uploadErrorHandlerMiddleware ::
    "('fs, 'x) unlink_fn \<Rightarrow> 'e err \<Rightarrow> Request \<Rightarrow> 'fs \<Rightarrow> ('e, 'x) outcome \<times> 'fs" where
  "uploadErrorHandlerMiddleware u e req d =
     (case cleanupFiles u req d of
        (Rejected x, d') \<Rightarrow> (\<lparr>called = Not_Called, settled = Rejected x\<rparr>, d')
      | (Resolved, d') \<Rightarrow>
          (case e of
             Multer m \<Rightarrow>
               (let response = \<lparr>success = False, status = 400, code = ''BAD_REQUEST'',
                                message = err_message m\<rparr>;
                    c = err_code m
                in (\<lparr>called = Next_Error (Response
                       (if c = ''LIMIT_PART_COUNT'' \<or> c = ''LIMIT_FILE_SIZE'' \<or>
                           c = ''LIMIT_FILE_COUNT'' \<or> c = ''LIMIT_FIELD_KEY'' \<or>
                           c = ''LIMIT_FIELD_VALUE'' \<or> c = ''LIMIT_FIELD_COUNT'' \<or>
                           c = ''LIMIT_UNEXPECTED_FILE''
                        then response\<lparr>code := ''UPLOAD_'' @ c\<rparr>
                        else response)),
                     settled = Resolved\<rparr>, d'))
           | _ \<Rightarrow> (\<lparr>called = Next_Error e, settled = Resolved\<rparr>, d')))"

section \<open>The staged files of a request, in the words of the specification\<close>

text \<open>
  The staged files that a request context references: the single file if one is
  present, otherwise every file of the received array, otherwise every file of every
  field group.
\<close>

definition referenced_paths :: "Request \<Rightarrow> path list" where
  "referenced_paths req =
     (case req_file req of
        Some f \<Rightarrow> [path f]
      | None \<Rightarrow>
          (case req_files req of
             None \<Rightarrow> []
           | Some (Files_Array fs) \<Rightarrow> map path fs
           | Some (Files_Groups g) \<Rightarrow> concat (map (\<lambda>(key, fs). map path fs) g)))"

text \<open>
  Every staged file of a request context (section 3 of the specification: a single
  optional file, or a sequence of files): the single file and all files of the
  collection.
\<close>

definition staged_paths :: "Request \<Rightarrow> path list" where
  "staged_paths req =
     (case req_file req of None \<Rightarrow> [] | Some f \<Rightarrow> [path f]) @
     (case req_files req of
        None \<Rightarrow> []
      | Some (Files_Array fs) \<Rightarrow> map path fs
      | Some (Files_Groups g) \<Rightarrow> concat (map (\<lambda>(key, fs). map path fs) g))"

text \<open>The seven limit kinds that the specification lists for the error translator.\<close>

definition recognized_limit_kinds :: "string set" where
  "recognized_limit_kinds =
     {''LIMIT_PART_COUNT'', ''LIMIT_FILE_SIZE'', ''LIMIT_FILE_COUNT'', ''LIMIT_FIELD_KEY'',
      ''LIMIT_FIELD_VALUE'', ''LIMIT_FIELD_COUNT'', ''LIMIT_UNEXPECTED_FILE''}"

section \<open>The disk and the parts of the service that are not in this file\<close>

text \<open>
  The disk is the set of the paths that exist. Node's \<^verbatim>\<open>fs.promises.unlink\<close> removes
  a path that exists and fails with \<^verbatim>\<open>ENOENT\<close> on one that does not. Removals that
  fail for another reason (a permission error) are covered where the removal of the file
  system is a parameter \<open>rm\<close>.
\<close>

type_synonym disk = "path set"

datatype errno = ENOENT

definition fs_unlink :: "path \<Rightarrow> disk \<Rightarrow> errno option \<times> disk" where
  "fs_unlink p d = (if p \<in> d then (None, d - {p}) else (Some ENOENT, d))"

text \<open>
  Modelled from the spec: \<^verbatim>\<open>unlink\<close> of \<^verbatim>\<open>src/utils\<close> is not among the sources.
  Section 7 of the specification: a removal that fails (a file already missing, a
  permission error) is best effort and never re-throws into the request pipeline. So
  the helper performs the removal \<open>rm\<close> of the file system and its promise resolves
  whether or not that removal failed.
\<close>

definition unlink :: "(path \<Rightarrow> 'fs \<Rightarrow> 'r option \<times> 'fs) \<Rightarrow> ('fs, 'x) unlink_fn" where
  "unlink rm p d = (Resolved, snd (rm p d))"

text \<open>
  What multer's \<^verbatim>\<open>.single(field)\<close> or \<^verbatim>\<open>.array(field)\<close> hands on: the request with
  its upload context filled in, or a limit violation together with the context as far
  as it was filled in.
\<close>

datatype acceptance =
    Accepted Request
  | Limit_Violation MulterError Request

fun context_of :: "acceptance \<Rightarrow> Request" where
  "context_of (Accepted req) = req"
| "context_of (Limit_Violation m req) = req"

datatype endpoint =
    Single_File
  | Multiple_Files int

fun validator :: "endpoint \<Rightarrow> Request \<Rightarrow> 'e next_call" where
  "validator Single_File req = uploadSingleFileMiddleware req"
| "validator (Multiple_Files minFiles) req = uploadMultipleFilesMiddleware minFiles req"

text \<open>
  Modelled from the spec: the routes that put the handlers of this file into a chain
  are not among the sources. Sections 4.4 and 6 of the specification: the framework
  invokes acceptor, validator, then the next handler or the error translator, then the
  cleanup handler; a limit violation jumps from the acceptor to the error translator,
  and so does an error of the downstream handler (section 7). The downstream handler
  is a parameter: it may change the disk, and it passes on with or without an error.
  Both validators always call \<^verbatim>\<open>next\<close>; the case \<open>Not_Called\<close> is there because the
  type has it.
\<close>

definition request_chain ::
    "('fs, 'x) unlink_fn \<Rightarrow> endpoint \<Rightarrow> (Request \<Rightarrow> 'fs \<Rightarrow> 'e err option \<times> 'fs) \<Rightarrow>
     acceptance \<Rightarrow> 'fs \<Rightarrow> ('e, 'x) outcome \<times> 'fs" where
  "request_chain u ep downstream a d =
     (case a of
        Limit_Violation m req \<Rightarrow> uploadErrorHandlerMiddleware u (Multer m) req d
      | Accepted req \<Rightarrow>
          (case validator ep req of
             Next_Error e \<Rightarrow> uploadErrorHandlerMiddleware u e req d
           | Next \<Rightarrow>
               (case downstream req d of
                  (None, d1) \<Rightarrow> cleanUploadedFilesMiddleware u req d1
                | (Some e, d1) \<Rightarrow> uploadErrorHandlerMiddleware u e req d1)
           | Not_Called \<Rightarrow> (\<lparr>called = Not_Called, settled = Resolved\<rparr>, d)))"

section \<open>Example uploads\<close>

text \<open>
  Sample files on which the theorems below are instantiated: a picture, a text file and
  a picture of no bytes, and a picture staged under a second path.
\<close>

definition photo :: File where
  "photo = \<lparr>fieldname = ''photo'', mimetype = ''image/png'', size_bytes = 1024,
     path = ''/tmp/a''\<rparr>"

definition memo :: File where
  "memo = \<lparr>fieldname = ''photo'', mimetype = ''text/plain'', size_bytes = 12,
     path = ''/tmp/b''\<rparr>"

definition blank :: File where
  "blank = \<lparr>fieldname = ''photo'', mimetype = ''image/png'', size_bytes = 0,
     path = ''/tmp/c''\<rparr>"

definition portrait :: File where
  "portrait = \<lparr>fieldname = ''portrait'', mimetype = ''image/jpeg'', size_bytes = 2048,
     path = ''/tmp/d''\<rparr>"

section \<open>Properties of the validators\<close>

text \<open>
  C2. On a single-file endpoint the validator answers \<^verbatim>\<open>NO_FILES\<close> (400) when no
  file was received; otherwise \<^verbatim>\<open>UNSUPPORTED_FILE\<close> (400) when the declared MIME type
  does not start with \<^verbatim>\<open>image/\<close>; otherwise \<^verbatim>\<open>EMPTY_FILE\<close> (400) when the size is
  exactly zero; otherwise it calls \<^verbatim>\<open>next()\<close> with no error.
\<close>

theorem single_file_validator:
  "(req_file req = None \<longrightarrow>
      (uploadSingleFileMiddleware req :: 'e next_call) = Next_Error (Response noFile)) \<and>
   (\<forall>f. req_file req = Some f \<and> \<not> prefix ''image/'' (mimetype f) \<longrightarrow>
      (uploadSingleFileMiddleware req :: 'e next_call) = Next_Error (Response badFile)) \<and>
   (\<forall>f. req_file req = Some f \<and> prefix ''image/'' (mimetype f) \<and> size_bytes f = 0 \<longrightarrow>
      (uploadSingleFileMiddleware req :: 'e next_call) = Next_Error (Response emptyFile)) \<and>
   (\<forall>f. req_file req = Some f \<and> prefix ''image/'' (mimetype f) \<and> size_bytes f \<noteq> 0 \<longrightarrow>
      (uploadSingleFileMiddleware req :: 'e next_call) = Next) \<and>
   code noFile = ''NO_FILES'' \<and> status noFile = 400 \<and>
   code badFile = ''UNSUPPORTED_FILE'' \<and> status badFile = 400 \<and>
   code emptyFile = ''EMPTY_FILE'' \<and> status emptyFile = 400"
  by (simp add: uploadSingleFileMiddleware_def noFile_def badFile_def emptyFile_def)

theorem single_file_validator_witness:
  "(uploadSingleFileMiddleware \<lparr>req_file = None, req_files = None\<rparr> :: unit next_call) =
     Next_Error (Response noFile) \<and>
   (uploadSingleFileMiddleware \<lparr>req_file = Some memo, req_files = None\<rparr> :: unit next_call) =
     Next_Error (Response badFile) \<and>
   (uploadSingleFileMiddleware \<lparr>req_file = Some blank, req_files = None\<rparr> :: unit next_call) =
     Next_Error (Response emptyFile) \<and>
   (uploadSingleFileMiddleware \<lparr>req_file = Some photo, req_files = None\<rparr> :: unit next_call) =
     Next"
  using single_file_validator [where 'e = unit, of "\<lparr>req_file = None, req_files = None\<rparr>"]
    single_file_validator [where 'e = unit, of "\<lparr>req_file = Some memo, req_files = None\<rparr>"]
    single_file_validator [where 'e = unit, of "\<lparr>req_file = Some blank, req_files = None\<rparr>"]
    single_file_validator [where 'e = unit, of "\<lparr>req_file = Some photo, req_files = None\<rparr>"]
  by (simp add: photo_def memo_def blank_def)

lemma for_of_files_find:
  "(for_of_files fs :: 'e next_call) =
     (case find (\<lambda>f. \<not> prefix ''image/'' (mimetype f) \<or> size_bytes f = 0) fs of
        None \<Rightarrow> Next
      | Some f \<Rightarrow>
          if \<not> prefix ''image/'' (mimetype f) then Next_Error (Response badFile)
          else Next_Error (Response emptyFile))"
  by (induction fs) auto

text \<open>
  C3. On a multi-file endpoint the validator answers \<^verbatim>\<open>NO_FILES\<close> (400) when the
  received collection is absent, is not an array or is empty; otherwise
  \<^verbatim>\<open>TOO_FEW_FILES\<close> (400) when fewer than \<^verbatim>\<open>minFiles\<close> files were received;
  otherwise it goes through the files in array order and fails at the first file that
  violates a rule, with \<^verbatim>\<open>UNSUPPORTED_FILE\<close> when the MIME type of that file does not
  start with \<^verbatim>\<open>image/\<close> and with \<^verbatim>\<open>EMPTY_FILE\<close> when its type is fine and its size is
  zero; when no file violates a rule it calls \<^verbatim>\<open>next()\<close> with no error.
\<close>

theorem multiple_files_validator:
  "((\<forall>fs. req_files req \<noteq> Some (Files_Array fs)) \<or> req_files req = Some (Files_Array []) \<longrightarrow>
      (uploadMultipleFilesMiddleware minFiles req :: 'e next_call) =
        Next_Error (Response noFile)) \<and>
   (\<forall>fs. req_files req = Some (Files_Array fs) \<and> fs \<noteq> [] \<and> int (length fs) < minFiles \<longrightarrow>
      (uploadMultipleFilesMiddleware minFiles req :: 'e next_call) =
        Next_Error (Response tooFewFiles)) \<and>
   (\<forall>fs. req_files req = Some (Files_Array fs) \<and> fs \<noteq> [] \<and> minFiles \<le> int (length fs) \<longrightarrow>
      (uploadMultipleFilesMiddleware minFiles req :: 'e next_call) =
        (case find (\<lambda>f. \<not> prefix ''image/'' (mimetype f) \<or> size_bytes f = 0) fs of
           None \<Rightarrow> Next
         | Some f \<Rightarrow>
             if \<not> prefix ''image/'' (mimetype f) then Next_Error (Response badFile)
             else Next_Error (Response emptyFile))) \<and>
   code noFile = ''NO_FILES'' \<and> status noFile = 400 \<and>
   code tooFewFiles = ''TOO_FEW_FILES'' \<and> status tooFewFiles = 400 \<and>
   code badFile = ''UNSUPPORTED_FILE'' \<and> status badFile = 400 \<and>
   code emptyFile = ''EMPTY_FILE'' \<and> status emptyFile = 400"
proof -
  have absent:
    "(\<forall>fs. req_files req \<noteq> Some (Files_Array fs)) \<or> req_files req = Some (Files_Array []) \<Longrightarrow>
       (uploadMultipleFilesMiddleware minFiles req :: 'e next_call) =
         Next_Error (Response noFile)"
    by (auto simp: uploadMultipleFilesMiddleware_def split: option.splits files_field.splits)
  have few:
    "\<And>fs. req_files req = Some (Files_Array fs) \<and> fs \<noteq> [] \<and> int (length fs) < minFiles \<Longrightarrow>
       (uploadMultipleFilesMiddleware minFiles req :: 'e next_call) =
         Next_Error (Response tooFewFiles)"
    by (simp add: uploadMultipleFilesMiddleware_def)
  have each:
    "\<And>fs. req_files req = Some (Files_Array fs) \<and> fs \<noteq> [] \<and> minFiles \<le> int (length fs) \<Longrightarrow>
       (uploadMultipleFilesMiddleware minFiles req :: 'e next_call) = for_of_files fs"
    by (simp add: uploadMultipleFilesMiddleware_def)
  have codes:
    "code noFile = ''NO_FILES'' \<and> status noFile = 400 \<and>
     code tooFewFiles = ''TOO_FEW_FILES'' \<and> status tooFewFiles = 400 \<and>
     code badFile = ''UNSUPPORTED_FILE'' \<and> status badFile = 400 \<and>
     code emptyFile = ''EMPTY_FILE'' \<and> status emptyFile = 400"
    by (simp add: noFile_def tooFewFiles_def badFile_def emptyFile_def)
  show ?thesis
    using absent few each [unfolded for_of_files_find] codes by blast
qed

theorem multiple_files_validator_witness:
  "(uploadMultipleFilesMiddleware 2 \<lparr>req_file = None, req_files = None\<rparr> :: unit next_call) =
     Next_Error (Response noFile) \<and>
   (uploadMultipleFilesMiddleware 2
      \<lparr>req_file = None, req_files = Some (Files_Array [photo])\<rparr> :: unit next_call) =
     Next_Error (Response tooFewFiles) \<and>
   (uploadMultipleFilesMiddleware 2
      \<lparr>req_file = None, req_files = Some (Files_Array [photo, memo, blank])\<rparr> :: unit next_call) =
     Next_Error (Response badFile) \<and>
   (uploadMultipleFilesMiddleware 2
      \<lparr>req_file = None, req_files = Some (Files_Array [photo, blank, memo])\<rparr> :: unit next_call) =
     Next_Error (Response emptyFile) \<and>
   (uploadMultipleFilesMiddleware 2
      \<lparr>req_file = None, req_files = Some (Files_Array [photo, portrait])\<rparr> :: unit next_call) =
     Next"
  using
    multiple_files_validator [where 'e = unit, of "\<lparr>req_file = None, req_files = None\<rparr>" 2]
    multiple_files_validator [where 'e = unit, of "\<lparr>req_file = None, req_files = Some (Files_Array [photo])\<rparr>" 2]
    multiple_files_validator
      [where 'e = unit, of "\<lparr>req_file = None, req_files = Some (Files_Array [photo, memo, blank])\<rparr>" 2]
    multiple_files_validator
      [where 'e = unit, of "\<lparr>req_file = None, req_files = Some (Files_Array [photo, blank, memo])\<rparr>" 2]
    multiple_files_validator
      [where 'e = unit, of "\<lparr>req_file = None, req_files = Some (Files_Array [photo, portrait])\<rparr>" 2]
  by (simp add: photo_def memo_def blank_def portrait_def)

section \<open>Properties of the cleanup\<close>

lemma start_all_effect: "snd (start_all u ps d) = fold (\<lambda>p s. snd (u p s)) ps d"
  by (induction ps arbitrary: d) (simp_all add: case_prod_beta)

lemma cleanupFiles_effect:
  "snd (cleanupFiles u req d) = fold (\<lambda>p s. snd (u p s)) (referenced_paths req) d"
  by (auto simp: cleanupFiles_def referenced_paths_def start_all_effect [symmetric]
      split: option.splits files_field.splits prod.splits)

lemma fold_recorder: "fold (\<lambda>p s. s @ [p]) ps log = log @ ps"
  by (induction ps arbitrary: log) auto

lemma cleanupFiles_nothing:
  "referenced_paths req = [] \<Longrightarrow> cleanupFiles u req d = (Resolved, d)"
  by (auto simp: cleanupFiles_def referenced_paths_def
      split: option.splits files_field.splits prod.splits)

text \<open>
  C6. For every request context and every removal helper \<open>u\<close>, the effect of
  \<^verbatim>\<open>cleanupFiles\<close> on the file system is that of calling \<open>u\<close> once on each
  referenced staged file, in order: the single file if one is present, otherwise every
  file of the array, otherwise every file of every field group. With a helper that only
  records the paths it is given (and settles in any way \<open>r\<close>), the record is exactly
  that list. When the context references no file, nothing is removed and the promise
  resolves.
\<close>

theorem cleanup_attempts_referenced_files:
  fixes u :: "('fs, 'x) unlink_fn" and r :: "path \<Rightarrow> path list \<Rightarrow> 'y promise"
  shows
    "snd (cleanupFiles u req d) = fold (\<lambda>p s. snd (u p s)) (referenced_paths req) d \<and>
     snd (cleanupFiles (\<lambda>p log. (r p log, log @ [p])) req []) = referenced_paths req \<and>
     (referenced_paths req = [] \<longrightarrow> cleanupFiles u req d = (Resolved, d))"
  using cleanupFiles_effect [of u req d]
    cleanupFiles_effect [of "\<lambda>p log. (r p log, log @ [p])" req "[]"]
    cleanupFiles_nothing [of req u d]
  by (simp add: fold_recorder)

theorem cleanup_attempts_referenced_files_witness:
  "snd (cleanupFiles (\<lambda>p log. (Resolved :: unit promise, log @ [p]))
          \<lparr>req_file = None,
             req_files = Some (Files_Groups
               [(''photo'', [photo, blank]), (''portrait'', [portrait])])\<rparr>
          []) = [''/tmp/a'', ''/tmp/c'', ''/tmp/d''] \<and>
   referenced_paths \<lparr>req_file = None, req_files = Some (Files_Array [])\<rparr> = [] \<and>
   cleanupFiles (unlink fs_unlink) \<lparr>req_file = None, req_files = Some (Files_Array [])\<rparr>
       {''/tmp/keep''} = (Resolved :: unit promise, {''/tmp/keep''})"
  using
    cleanup_attempts_referenced_files
      [where r = "\<lambda>p log. Resolved :: unit promise" and
        u = "\<lambda>p log. (Resolved :: unit promise, log @ [p])" and d = "[]" and
        req = "\<lparr>req_file = None,
           req_files = Some (Files_Groups
             [(''photo'', [photo, blank]), (''portrait'', [portrait])])\<rparr>"]
    cleanup_attempts_referenced_files
      [where r = "\<lambda>p log. Resolved :: unit promise" and
        u = "unlink fs_unlink :: (disk, unit) unlink_fn" and
        req = "\<lparr>req_file = None, req_files = Some (Files_Array [])\<rparr>" and
        d = "{''/tmp/keep''}"]
  by (simp add: referenced_paths_def photo_def blank_def portrait_def)

text \<open>
  C9. When a request context holds both a single file and a files collection,
  \<^verbatim>\<open>cleanupFiles\<close> is exactly one call of the removal helper on the path of the single
  file: the only path handed to the helper is that one, and no file of the collection
  is touched.
\<close>

theorem single_file_takes_precedence:
  fixes u :: "('fs, 'x) unlink_fn" and r :: "path \<Rightarrow> path list \<Rightarrow> 'y promise"
  assumes "req_file req = Some f" and "req_files req = Some fl"
  shows "cleanupFiles u req d = u (path f) d \<and>
         snd (cleanupFiles (\<lambda>p log. (r p log, log @ [p])) req []) = [path f]"
  using assms by (simp add: cleanupFiles_def)

theorem single_file_takes_precedence_witness:
  "req_file \<lparr>req_file = Some photo, req_files = Some (Files_Array [memo, portrait])\<rparr> =
     Some photo \<and>
   req_files \<lparr>req_file = Some photo, req_files = Some (Files_Array [memo, portrait])\<rparr> =
     Some (Files_Array [memo, portrait]) \<and>
   cleanupFiles (unlink fs_unlink)
       \<lparr>req_file = Some photo, req_files = Some (Files_Array [memo, portrait])\<rparr>
       {''/tmp/a'', ''/tmp/b'', ''/tmp/d''} =
     (Resolved :: unit promise, {''/tmp/b'', ''/tmp/d''}) \<and>
   snd (cleanupFiles (\<lambda>p log. (Resolved :: unit promise, log @ [p]))
          \<lparr>req_file = Some photo, req_files = Some (Files_Array [memo, portrait])\<rparr> []) =
     [''/tmp/a'']"
  using
    single_file_takes_precedence
      [where r = "\<lambda>p log. Resolved :: unit promise" and
        u = "unlink fs_unlink :: (disk, unit) unlink_fn" and
        req = "\<lparr>req_file = Some photo, req_files = Some (Files_Array [memo, portrait])\<rparr>" and
        f = photo and fl = "Files_Array [memo, portrait]" and
        d = "{''/tmp/a'', ''/tmp/b'', ''/tmp/d''}"]
  by (auto simp: unlink_def fs_unlink_def photo_def)

text \<open>
  C10. On a multi-file endpoint a files collection of the grouped-by-field shape is
  answered with \<^verbatim>\<open>NO_FILES\<close> (400), whatever the groups hold, while
  \<^verbatim>\<open>cleanupFiles\<close> (with no single file present) hands every file of every group to the
  removal helper.
\<close>

theorem grouped_files_rejected_by_validator:
  fixes r :: "path \<Rightarrow> path list \<Rightarrow> 'y promise"
  assumes "req_files req = Some (Files_Groups g)"
  shows "(uploadMultipleFilesMiddleware minFiles req :: 'e next_call) =
           Next_Error (Response noFile) \<and>
         code noFile = ''NO_FILES'' \<and> status noFile = 400 \<and>
         (req_file req = None \<longrightarrow>
            snd (cleanupFiles (\<lambda>p log. (r p log, log @ [p])) req []) =
              concat (map (\<lambda>(key, fs). map path fs) g))"
  using assms cleanupFiles_effect [of "\<lambda>p log. (r p log, log @ [p])" req "[]"]
  by (simp add: uploadMultipleFilesMiddleware_def noFile_def referenced_paths_def fold_recorder)

theorem grouped_files_rejected_by_validator_witness:
  "req_files \<lparr>req_file = None, req_files = Some (Files_Groups [(''photo'', [photo, portrait])])\<rparr> =
     Some (Files_Groups [(''photo'', [photo, portrait])]) \<and>
   (uploadMultipleFilesMiddleware 1
      \<lparr>req_file = None, req_files = Some (Files_Groups [(''photo'', [photo, portrait])])\<rparr>
      :: unit next_call) = Next_Error (Response noFile) \<and>
   snd (cleanupFiles (\<lambda>p log. (Resolved :: unit promise, log @ [p]))
          \<lparr>req_file = None, req_files = Some (Files_Groups [(''photo'', [photo, portrait])])\<rparr>
          []) = [''/tmp/a'', ''/tmp/d'']"
  using
    grouped_files_rejected_by_validator
      [where 'e = unit and r = "\<lambda>p log. Resolved :: unit promise" and minFiles = 1 and
        req = "\<lparr>req_file = None,
                req_files = Some (Files_Groups [(''photo'', [photo, portrait])])\<rparr>" and
        g = "[(''photo'', [photo, portrait])]"]
  by (simp add: photo_def portrait_def)

section \<open>Properties of the error translator\<close>

lemma uploadErrorHandlerMiddleware_effect:
  "snd (uploadErrorHandlerMiddleware u e req d) = snd (cleanupFiles u req d)"
  by (cases "cleanupFiles u req d")
    (simp add: uploadErrorHandlerMiddleware_def Let_def split: promise.splits err.splits)

lemma uploadErrorHandlerMiddleware_rejected:
  "fst (cleanupFiles u req d) = Rejected x \<Longrightarrow>
   fst (uploadErrorHandlerMiddleware u e req d) = \<lparr>called = Not_Called, settled = Rejected x\<rparr>"
  by (cases "cleanupFiles u req d") (simp add: uploadErrorHandlerMiddleware_def)

lemma uploadErrorHandlerMiddleware_multer:
  "fst (cleanupFiles u req d) = Resolved \<Longrightarrow>
   fst (uploadErrorHandlerMiddleware u (Multer m) req d) =
     \<lparr>called = Next_Error (Response
        \<lparr>success = False, status = 400,
           code = (if err_code m \<in> recognized_limit_kinds then ''UPLOAD_'' @ err_code m
                   else ''BAD_REQUEST''),
           message = err_message m\<rparr>),
      settled = Resolved\<rparr>"
  by (cases "cleanupFiles u req d")
    (simp add: uploadErrorHandlerMiddleware_def Let_def recognized_limit_kinds_def)

lemma uploadErrorHandlerMiddleware_other:
  "fst (cleanupFiles u req d) = Resolved \<Longrightarrow> \<forall>m. e \<noteq> Multer m \<Longrightarrow>
   fst (uploadErrorHandlerMiddleware u e req d) = \<lparr>called = Next_Error e, settled = Resolved\<rparr>"
  by (cases "cleanupFiles u req d")
    (simp add: uploadErrorHandlerMiddleware_def split: err.splits)

text \<open>
  C4. Once the cleanup pass has completed, the error translator answers a
  \<^verbatim>\<open>MulterError\<close> with \<^verbatim>\<open>next(response)\<close>, where the response has
  \<^verbatim>\<open>success\<close> false, status 400, the message of the error unchanged, and as code
  \<^verbatim>\<open>UPLOAD_\<close> followed by the code of the error when that code is one of the seven
  recognized limit kinds, and \<^verbatim>\<open>BAD_REQUEST\<close> otherwise.
\<close>

theorem limit_error_translation:
  fixes u :: "('fs, 'x) unlink_fn"
  assumes "fst (cleanupFiles u req d) = Resolved"
  shows "called (fst (uploadErrorHandlerMiddleware u (Multer m :: 'e err) req d)) =
           Next_Error (Response
             \<lparr>success = False, status = 400,
                code = (if err_code m \<in> recognized_limit_kinds then ''UPLOAD_'' @ err_code m
                        else ''BAD_REQUEST''),
                message = err_message m\<rparr>)"
  using assms by (simp add: uploadErrorHandlerMiddleware_multer)

theorem limit_error_translation_witness:
  "fst (cleanupFiles (unlink fs_unlink :: (disk, unit) unlink_fn)
          \<lparr>req_file = None, req_files = Some (Files_Array [photo])\<rparr> {''/tmp/a''}) = Resolved \<and>
   called (fst (uploadErrorHandlerMiddleware (unlink fs_unlink :: (disk, unit) unlink_fn)
          (Multer \<lparr>err_code = ''LIMIT_FILE_SIZE'', err_message = ''File too large''\<rparr> :: unit err)
          \<lparr>req_file = None, req_files = Some (Files_Array [photo])\<rparr> {''/tmp/a''})) =
     Next_Error (Response \<lparr>success = False, status = 400, code = ''UPLOAD_LIMIT_FILE_SIZE'',
       message = ''File too large''\<rparr>) \<and>
   called (fst (uploadErrorHandlerMiddleware (unlink fs_unlink :: (disk, unit) unlink_fn)
          (Multer \<lparr>err_code = ''MISSING_FIELD_NAME'', err_message = ''Field name missing''\<rparr>
             :: unit err)
          \<lparr>req_file = None, req_files = Some (Files_Array [photo])\<rparr> {''/tmp/a''})) =
     Next_Error (Response \<lparr>success = False, status = 400, code = ''BAD_REQUEST'',
       message = ''Field name missing''\<rparr>)"
proof -
  have cleaned: "fst (cleanupFiles (unlink fs_unlink :: (disk, unit) unlink_fn)
      \<lparr>req_file = None, req_files = Some (Files_Array [photo])\<rparr> {''/tmp/a''}) = Resolved"
    by (simp add: cleanupFiles_def unlink_def)
  show ?thesis
    using cleaned
      limit_error_translation [OF cleaned, where 'e = unit and
        m = "\<lparr>err_code = ''LIMIT_FILE_SIZE'', err_message = ''File too large''\<rparr>"]
      limit_error_translation [OF cleaned, where 'e = unit and
        m = "\<lparr>err_code = ''MISSING_FIELD_NAME'', err_message = ''Field name missing''\<rparr>"]
    by (simp add: recognized_limit_kinds_def)
qed

text \<open>
  C5. For every error handed to the error translator, the effect on the file system is
  that of the cleanup pass over the request, whatever the error is, and \<^verbatim>\<open>next\<close> is
  called only after that pass has completed. Once it has completed, an error that is
  not a \<^verbatim>\<open>MulterError\<close> is handed to \<^verbatim>\<open>next\<close> unchanged.
\<close>

theorem cleanup_first_then_forward:
  fixes u :: "('fs, 'x) unlink_fn" and e :: "'e err"
  shows
    "snd (uploadErrorHandlerMiddleware u e req d) = snd (cleanupFiles u req d) \<and>
     (called (fst (uploadErrorHandlerMiddleware u e req d)) \<noteq> Not_Called \<longrightarrow>
        fst (cleanupFiles u req d) = Resolved) \<and>
     (fst (cleanupFiles u req d) = Resolved \<and> (\<forall>m. e \<noteq> Multer m) \<longrightarrow>
        called (fst (uploadErrorHandlerMiddleware u e req d)) = Next_Error e)"
proof -
  have "called (fst (uploadErrorHandlerMiddleware u e req d)) \<noteq> Not_Called \<Longrightarrow>
      fst (cleanupFiles u req d) = Resolved"
    using uploadErrorHandlerMiddleware_rejected [of u req d _ e]
    by (cases "fst (cleanupFiles u req d)") simp_all
  then show ?thesis
    by (simp add: uploadErrorHandlerMiddleware_effect uploadErrorHandlerMiddleware_other)
qed

theorem cleanup_first_then_forward_witness:
  "fst (cleanupFiles (unlink fs_unlink :: (disk, unit) unlink_fn)
          \<lparr>req_file = Some photo, req_files = None\<rparr> {''/tmp/a'', ''/tmp/keep''}) = Resolved \<and>
   (\<forall>m. (Other ''boom'' :: string err) \<noteq> Multer m) \<and>
   snd (uploadErrorHandlerMiddleware (unlink fs_unlink :: (disk, unit) unlink_fn)
          (Other ''boom'' :: string err)
          \<lparr>req_file = Some photo, req_files = None\<rparr> {''/tmp/a'', ''/tmp/keep''}) =
     {''/tmp/keep''} \<and>
   called (fst (uploadErrorHandlerMiddleware (unlink fs_unlink :: (disk, unit) unlink_fn)
          (Other ''boom'' :: string err)
          \<lparr>req_file = Some photo, req_files = None\<rparr> {''/tmp/a'', ''/tmp/keep''})) =
     Next_Error (Other ''boom'')"
proof -
  have cleaned: "cleanupFiles (unlink fs_unlink :: (disk, unit) unlink_fn)
      \<lparr>req_file = Some photo, req_files = None\<rparr> {''/tmp/a'', ''/tmp/keep''} =
      (Resolved, {''/tmp/keep''})"
    by (auto simp: cleanupFiles_def unlink_def fs_unlink_def photo_def)
  show ?thesis
    using cleaned
      cleanup_first_then_forward
        [where u = "unlink fs_unlink :: (disk, unit) unlink_fn" and
          e = "Other ''boom'' :: string err" and
          req = "\<lparr>req_file = Some photo, req_files = None\<rparr>" and
          d = "{''/tmp/a'', ''/tmp/keep''}"]
    by simp
qed

section \<open>Removals that fail\<close>

lemma cleanUploadedFilesMiddleware_effect:
  "snd (cleanUploadedFilesMiddleware u req d) = snd (cleanupFiles u req d)"
  by (simp add: cleanUploadedFilesMiddleware_def case_prod_beta)

lemma cleanUploadedFilesMiddleware_outcome:
  "fst (cleanUploadedFilesMiddleware u req d) =
     \<lparr>called = Next, settled = fst (cleanupFiles u req d)\<rparr>"
  by (simp add: cleanUploadedFilesMiddleware_def case_prod_beta)

lemma start_all_unlink:
  "fst (start_all (unlink rm) ps d) = replicate (length ps) Resolved"
  by (induction ps arbitrary: d) (simp_all add: case_prod_beta unlink_def)

lemma promise_all_replicate: "promise_all (replicate n Resolved) = Resolved"
  by (induction n) simp_all

lemma settle_unlink:
  "fst (case start_all (unlink rm) ps d of
          (promises, d') \<Rightarrow>
            if promises \<noteq> [] then (promise_all promises, d') else (Resolved, d')) =
     Resolved"
  by (simp add: case_prod_beta start_all_unlink promise_all_replicate)

lemma cleanupFiles_unlink_resolved: "fst (cleanupFiles (unlink rm) req d) = Resolved"
  by (simp add: cleanupFiles_def settle_unlink split: option.splits) (simp add: unlink_def)

text \<open>
  C7. Whatever the removal helper does, failing included, the cleanup middleware calls
  \<^verbatim>\<open>next()\<close> with no error. With the helper of the specification over any removal
  \<open>rm\<close> of the file system (one that may fail on any path), the cleanup middleware
  leaves no rejected promise behind, and the error translator still completes and
  translates a \<^verbatim>\<open>MulterError\<close> or forwards any other error unchanged: the failure of a
  removal reaches neither \<^verbatim>\<open>next\<close> nor the promise of the handler.
\<close>

theorem removal_failure_not_escalated:
  fixes u :: "('fs, 'x) unlink_fn" and rm :: "path \<Rightarrow> 'gs \<Rightarrow> 'r option \<times> 'gs"
    and e :: "'e err"
  shows
    "called (fst (cleanUploadedFilesMiddleware u req d) :: ('e, 'x) outcome) = Next \<and>
     fst (cleanUploadedFilesMiddleware (unlink rm) req s) =
       (\<lparr>called = Next, settled = Resolved\<rparr> :: ('e, 'y) outcome) \<and>
     fst (uploadErrorHandlerMiddleware (unlink rm) e req s) =
       (\<lparr>called =
           (case e of
              Multer m \<Rightarrow>
                Next_Error (Response
                  \<lparr>success = False, status = 400,
                     code = (if err_code m \<in> recognized_limit_kinds
                             then ''UPLOAD_'' @ err_code m else ''BAD_REQUEST''),
                     message = err_message m\<rparr>)
            | _ \<Rightarrow> Next_Error e),
         settled = Resolved\<rparr> :: ('e, 'y) outcome)"
  by (cases e)
    (simp_all add: cleanUploadedFilesMiddleware_outcome cleanupFiles_unlink_resolved
      uploadErrorHandlerMiddleware_multer uploadErrorHandlerMiddleware_other)

theorem removal_failure_not_escalated_witness:
  "fst (fs_unlink ''/tmp/a'' {}) = Some ENOENT \<and>
   fst (cleanUploadedFilesMiddleware (unlink fs_unlink)
          \<lparr>req_file = Some photo, req_files = None\<rparr> {}) =
     (\<lparr>called = Next, settled = Resolved\<rparr> :: (unit, unit) outcome) \<and>
   fst (uploadErrorHandlerMiddleware (unlink fs_unlink) (Response badFile)
          \<lparr>req_file = Some photo, req_files = None\<rparr> {}) =
     (\<lparr>called = Next_Error (Response badFile), settled = Resolved\<rparr> :: (unit, unit) outcome)"
  using
    removal_failure_not_escalated
      [where 'e = unit and 'y = unit and 'x = unit and rm = fs_unlink and
        u = "unlink fs_unlink" and e = "Response badFile" and
        req = "\<lparr>req_file = Some photo, req_files = None\<rparr>" and d = "{}" and s = "{}"]
  by (simp add: fs_unlink_def)

lemma fold_fs_unlink: "fold (\<lambda>p s. snd (unlink fs_unlink p s)) ps d = d - set ps"
  by (induction ps arbitrary: d) (auto simp: unlink_def fs_unlink_def)

lemma cleanupFiles_disk:
  "snd (cleanupFiles (unlink fs_unlink) req d) = d - set (referenced_paths req)"
  by (simp add: cleanupFiles_effect fold_fs_unlink)

text \<open>
  C8. With the helper of the specification on the disk, a second cleanup of the same
  request context resolves and leaves the disk as the first cleanup left it, and the
  cleanup middleware, run a second time, calls \<^verbatim>\<open>next()\<close> with no error and leaves no
  rejected promise behind, although by then every removal of a referenced file fails
  with \<^verbatim>\<open>ENOENT\<close>.
\<close>

theorem cleanup_idempotent:
  "cleanupFiles (unlink fs_unlink) req
       (snd (cleanupFiles (unlink fs_unlink) req d :: 'x promise \<times> disk)) =
     (Resolved :: 'x promise, snd (cleanupFiles (unlink fs_unlink) req d :: 'x promise \<times> disk)) \<and>
   cleanUploadedFilesMiddleware (unlink fs_unlink) req
       (snd (cleanUploadedFilesMiddleware (unlink fs_unlink) req d :: ('e, 'x) outcome \<times> disk)) =
     (\<lparr>called = Next, settled = Resolved\<rparr> :: ('e, 'x) outcome,
      snd (cleanUploadedFilesMiddleware (unlink fs_unlink) req d :: ('e, 'x) outcome \<times> disk)) \<and>
   (\<forall>p \<in> set (referenced_paths req).
      fst (fs_unlink p (snd (cleanupFiles (unlink fs_unlink) req d :: 'x promise \<times> disk))) =
        Some ENOENT)"
proof -
  have again: "cleanupFiles (unlink fs_unlink) req (d - set (referenced_paths req)) =
      (Resolved :: 'x promise, d - set (referenced_paths req))"
    using cleanupFiles_unlink_resolved [of fs_unlink req "d - set (referenced_paths req)"]
      cleanupFiles_disk [of req "d - set (referenced_paths req)"]
    by (auto simp: prod_eq_iff)
  show ?thesis
    by (simp add: prod_eq_iff cleanUploadedFilesMiddleware_effect
        cleanUploadedFilesMiddleware_outcome cleanupFiles_disk again fs_unlink_def)
qed

theorem cleanup_idempotent_witness:
  "snd (cleanupFiles (unlink fs_unlink)
          \<lparr>req_file = None, req_files = Some (Files_Array [photo, memo])\<rparr>
          {''/tmp/a'', ''/tmp/b'', ''/tmp/keep''} :: unit promise \<times> disk) = {''/tmp/keep''} \<and>
   cleanupFiles (unlink fs_unlink)
       \<lparr>req_file = None, req_files = Some (Files_Array [photo, memo])\<rparr> {''/tmp/keep''} =
     (Resolved :: unit promise, {''/tmp/keep''}) \<and>
   cleanUploadedFilesMiddleware (unlink fs_unlink)
       \<lparr>req_file = None, req_files = Some (Files_Array [photo, memo])\<rparr> {''/tmp/keep''} =
     (\<lparr>called = Next, settled = Resolved\<rparr> :: (unit, unit) outcome, {''/tmp/keep''}) \<and>
   fst (fs_unlink ''/tmp/a'' {''/tmp/keep''}) = Some ENOENT \<and>
   fst (fs_unlink ''/tmp/b'' {''/tmp/keep''}) = Some ENOENT"
proof -
  have first: "snd (cleanupFiles (unlink fs_unlink)
      \<lparr>req_file = None, req_files = Some (Files_Array [photo, memo])\<rparr>
      {''/tmp/a'', ''/tmp/b'', ''/tmp/keep''} :: unit promise \<times> disk) = {''/tmp/keep''}"
    by (auto simp: cleanupFiles_disk referenced_paths_def photo_def memo_def)
  have first': "snd (cleanUploadedFilesMiddleware (unlink fs_unlink)
      \<lparr>req_file = None, req_files = Some (Files_Array [photo, memo])\<rparr>
      {''/tmp/a'', ''/tmp/b'', ''/tmp/keep''} :: (unit, unit) outcome \<times> disk) = {''/tmp/keep''}"
    using first by (simp add: cleanUploadedFilesMiddleware_effect)
  show ?thesis
    using first
      cleanup_idempotent
        [where 'x = unit and 'e = unit and
          req = "\<lparr>req_file = None, req_files = Some (Files_Array [photo, memo])\<rparr>" and
          d = "{''/tmp/a'', ''/tmp/b'', ''/tmp/keep''}", unfolded first first']
    by (simp add: referenced_paths_def photo_def memo_def)
qed

section \<open>The chain of a request\<close>

lemma staged_paths_referenced:
  "req_file req = None \<or> req_files req = None \<Longrightarrow> staged_paths req = referenced_paths req"
  by (auto simp: staged_paths_def referenced_paths_def split: option.splits files_field.splits)

lemma for_of_files_calls_next: "(for_of_files fs :: 'e next_call) \<noteq> Not_Called"
  by (induction fs) simp_all

lemma validator_calls_next: "(validator ep req :: 'e next_call) \<noteq> Not_Called"
  by (cases ep)
    (simp_all add: uploadSingleFileMiddleware_def uploadMultipleFilesMiddleware_def
      for_of_files_calls_next split: option.splits files_field.splits)

lemma request_chain_effect:
  fixes downstream :: "Request \<Rightarrow> 'fs \<Rightarrow> 'e err option \<times> 'fs"
  shows "\<exists>d1. snd (request_chain u ep downstream a d) = snd (cleanupFiles u (context_of a) d1)"
proof (cases a)
  case (Limit_Violation m req)
  then show ?thesis
    by (auto simp: request_chain_def uploadErrorHandlerMiddleware_effect)
next
  case (Accepted req)
  show ?thesis
  proof (cases "validator ep req :: 'e next_call")
    case Not_Called
    then show ?thesis
      using validator_calls_next [where 'e = 'e, of ep req] by simp
  next
    case Next
    then show ?thesis
      using Accepted
      by (cases "downstream req d"; cases "fst (downstream req d)")
        (auto simp: request_chain_def uploadErrorHandlerMiddleware_effect
          cleanUploadedFilesMiddleware_effect)
  next
    case (Next_Error e)
    then show ?thesis
      using Accepted by (auto simp: request_chain_def uploadErrorHandlerMiddleware_effect)
  qed
qed

text \<open>
  C1. For a request whose upload context has the shape that multer's
  \<^verbatim>\<open>.single(field)\<close> or \<^verbatim>\<open>.array(field)\<close> gives it (not both a single file and a
  collection), on every exit of the chain (validation passed and the downstream handler
  passed on, the downstream handler raised an error, validation rejected the request,
  multer reported a limit violation) no staged file of the request is on the disk when
  the chain ends, whatever the downstream handler did to the disk. The cleanup
  middleware and the error translator both have, on the file system, the effect of the
  same pass \<^verbatim>\<open>cleanupFiles\<close>, for every removal helper.
\<close>

theorem staged_files_removed_on_every_exit:
  fixes downstream :: "Request \<Rightarrow> disk \<Rightarrow> 'e err option \<times> disk"
    and u :: "('fs, 'y) unlink_fn" and e :: "'e err"
  assumes "req_file (context_of a) = None \<or> req_files (context_of a) = None"
  shows "snd (request_chain (unlink fs_unlink) ep downstream a d ::
                ('e, 'x) outcome \<times> disk) \<inter>
           set (staged_paths (context_of a)) = {} \<and>
         snd (cleanUploadedFilesMiddleware u req s :: ('e, 'y) outcome \<times> 'fs) =
           snd (cleanupFiles u req s) \<and>
         snd (uploadErrorHandlerMiddleware u e req s) = snd (cleanupFiles u req s)"
proof -
  obtain d1 where "snd (request_chain (unlink fs_unlink) ep downstream a d ::
        ('e, 'x) outcome \<times> disk) =
      snd (cleanupFiles (unlink fs_unlink) (context_of a) d1 :: 'x promise \<times> disk)"
    using request_chain_effect [of "unlink fs_unlink" ep downstream a d] by blast
  then have "snd (request_chain (unlink fs_unlink) ep downstream a d ::
        ('e, 'x) outcome \<times> disk) =
      d1 - set (staged_paths (context_of a))"
    using assms by (simp add: cleanupFiles_disk staged_paths_referenced)
  then show ?thesis
    by (auto simp: cleanUploadedFilesMiddleware_effect uploadErrorHandlerMiddleware_effect)
qed

theorem staged_files_removed_on_every_exit_witness:
  "req_files (context_of (Accepted \<lparr>req_file = Some photo, req_files = None\<rparr>)) = None \<and>
   snd (request_chain (unlink fs_unlink) Single_File (\<lambda>req d. (None, d))
          (Accepted \<lparr>req_file = Some photo, req_files = None\<rparr>)
          {''/tmp/a'', ''/tmp/keep''} :: (unit, unit) outcome \<times> disk) \<inter>
     set (staged_paths (context_of (Accepted \<lparr>req_file = Some photo, req_files = None\<rparr>))) =
     {} \<and>
   req_file (context_of
     (Accepted \<lparr>req_file = None, req_files = Some (Files_Array [photo, memo])\<rparr>)) = None \<and>
   snd (request_chain (unlink fs_unlink) (Multiple_Files 2) (\<lambda>req d. (None, d))
          (Accepted \<lparr>req_file = None, req_files = Some (Files_Array [photo, memo])\<rparr>)
          {''/tmp/a'', ''/tmp/b'', ''/tmp/keep''} :: (unit, unit) outcome \<times> disk) \<inter>
     set (staged_paths (context_of
       (Accepted \<lparr>req_file = None, req_files = Some (Files_Array [photo, memo])\<rparr>))) =
     {} \<and>
   req_file (context_of
     (Limit_Violation \<lparr>err_code = ''LIMIT_FILE_SIZE'', err_message = ''File too large''\<rparr>
        \<lparr>req_file = None, req_files = Some (Files_Array [photo])\<rparr>)) = None \<and>
   snd (request_chain (unlink fs_unlink) (Multiple_Files 2) (\<lambda>req d. (None, d))
          (Limit_Violation \<lparr>err_code = ''LIMIT_FILE_SIZE'', err_message = ''File too large''\<rparr>
             \<lparr>req_file = None, req_files = Some (Files_Array [photo])\<rparr>)
          {''/tmp/a'', ''/tmp/keep''} :: (unit, unit) outcome \<times> disk) \<inter>
     set (staged_paths (context_of
       (Limit_Violation \<lparr>err_code = ''LIMIT_FILE_SIZE'', err_message = ''File too large''\<rparr>
          \<lparr>req_file = None, req_files = Some (Files_Array [photo])\<rparr>))) =
     {} \<and>
   snd (request_chain (unlink fs_unlink) (Multiple_Files 2) (\<lambda>req d. (None, d))
          (Accepted \<lparr>req_file = None, req_files = Some (Files_Array [photo, memo])\<rparr>)
          {''/tmp/a'', ''/tmp/b'', ''/tmp/keep''} :: (unit, unit) outcome \<times> disk) =
     {''/tmp/keep''}"
proof -
  have single:
    "req_file (context_of (Accepted \<lparr>req_file = Some photo, req_files = None\<rparr>)) = None \<or>
     req_files (context_of (Accepted \<lparr>req_file = Some photo, req_files = None\<rparr>)) = None"
    by simp
  have array:
    "req_file (context_of
       (Accepted \<lparr>req_file = None, req_files = Some (Files_Array [photo, memo])\<rparr>)) = None \<or>
     req_files (context_of
       (Accepted \<lparr>req_file = None, req_files = Some (Files_Array [photo, memo])\<rparr>)) = None"
    by simp
  have limit:
    "req_file (context_of
       (Limit_Violation \<lparr>err_code = ''LIMIT_FILE_SIZE'', err_message = ''File too large''\<rparr>
          \<lparr>req_file = None, req_files = Some (Files_Array [photo])\<rparr>)) = None \<or>
     req_files (context_of
       (Limit_Violation \<lparr>err_code = ''LIMIT_FILE_SIZE'', err_message = ''File too large''\<rparr>
          \<lparr>req_file = None, req_files = Some (Files_Array [photo])\<rparr>)) = None"
    by simp
  have rejected:
    "(uploadMultipleFilesMiddleware 2
        \<lparr>req_file = None, req_files = Some (Files_Array [photo, memo])\<rparr> :: unit next_call) =
       Next_Error (Response badFile)"
    by (simp add: uploadMultipleFilesMiddleware_def photo_def memo_def)
  have final:
    "snd (request_chain (unlink fs_unlink) (Multiple_Files 2) (\<lambda>req d. (None, d))
          (Accepted \<lparr>req_file = None, req_files = Some (Files_Array [photo, memo])\<rparr>)
          {''/tmp/a'', ''/tmp/b'', ''/tmp/keep''} :: (unit, unit) outcome \<times> disk) =
     {''/tmp/keep''}"
    by (simp add: request_chain_def rejected uploadErrorHandlerMiddleware_effect
        cleanupFiles_disk)
      (auto simp: referenced_paths_def photo_def memo_def)
  show ?thesis
    using final
      staged_files_removed_on_every_exit
        [OF single, where 'e = unit and 'x = unit and ep = Single_File and
          downstream = "\<lambda>req d. (None, d)" and d = "{''/tmp/a'', ''/tmp/keep''}" and
          u = "unlink fs_unlink :: (disk, unit) unlink_fn" and e = "Response badFile" and
          req = "\<lparr>req_file = Some photo, req_files = None\<rparr>" and s = "{}"]
      staged_files_removed_on_every_exit
        [OF array, where 'e = unit and 'x = unit and ep = "Multiple_Files 2" and
          downstream = "\<lambda>req d. (None, d)" and d = "{''/tmp/a'', ''/tmp/b'', ''/tmp/keep''}" and
          u = "unlink fs_unlink :: (disk, unit) unlink_fn" and e = "Response badFile" and
          req = "\<lparr>req_file = Some photo, req_files = None\<rparr>" and s = "{}"]
      staged_files_removed_on_every_exit
        [OF limit, where 'e = unit and 'x = unit and ep = "Multiple_Files 2" and
          downstream = "\<lambda>req d. (None, d)" and d = "{''/tmp/a'', ''/tmp/keep''}" and
          u = "unlink fs_unlink :: (disk, unit) unlink_fn" and e = "Response badFile" and
          req = "\<lparr>req_file = Some photo, req_files = None\<rparr>" and s = "{}"]
    by simp
qed

end
